theory Spec2Isabelle
  imports Main
begin

section \<open>JavaScript values used by the handlers of index.js\<close>

text \<open>
  A JavaScript string is a sequence of UTF-16 code units; a code unit is modelled by its
  number. \<open>js\<close> turns an ASCII literal into such a sequence.
\<close>

type_synonym jsstring = "nat list"

definition js :: "string \<Rightarrow> jsstring" where
  "js s = map of_char s"

text \<open>
  The white space and line terminator code units of ECMAScript: the ones that
  \<open>String.prototype.trim\<close> removes and that \<open>parseInt\<close> skips.
\<close>

definition is_js_space :: "nat \<Rightarrow> bool" where
  "is_js_space c \<longleftrightarrow>
     c = 9 \<or> c = 10 \<or> c = 11 \<or> c = 12 \<or> c = 13 \<or> c = 32 \<or> c = 160 \<or> c = 5760 \<or>
     (8192 \<le> c \<and> c \<le> 8202) \<or> c = 8232 \<or> c = 8233 \<or> c = 8239 \<or> c = 8287 \<or>
     c = 12288 \<or> c = 65279"

definition js_trim :: "jsstring \<Rightarrow> jsstring" where
  "js_trim s = rev (dropWhile is_js_space (rev (dropWhile is_js_space s)))"

text \<open>
  A JavaScript number as the handlers meet it: the result of \<open>parseInt\<close> is \<open>NaN\<close> or an
  integer. The integers of the model are the mathematical ones. The number of the program
  is a double, which holds every integer up to \<open>2 ^ 53\<close> in magnitude and rounds beyond:
  the model and the program agree on the numbers that \<open>exact\<close> accepts, and a statement
  about a parsed or computed number is made for those.
\<close>

datatype jsnum = NaN | Num int

definition exact_int :: "int \<Rightarrow> bool" where
  "exact_int n \<longleftrightarrow> - 9007199254740992 \<le> n \<and> n \<le> 9007199254740992"

fun exact :: "jsnum \<Rightarrow> bool" where
  "exact NaN = True"
| "exact (Num n) = exact_int n"

definition is_digit :: "nat \<Rightarrow> bool" where
  "is_digit c \<longleftrightarrow> 48 \<le> c \<and> c \<le> 57"

definition digits_value :: "jsstring \<Rightarrow> int" where
  "digits_value ds = foldl (\<lambda>acc c. 10 * acc + (int c - 48)) 0 ds"

text \<open>
  \<open>parseInt(s, 10)\<close>: leading white space is skipped, one sign is read, then the longest
  run of decimal digits; what follows the digits is ignored, and no digit at all gives
  \<open>NaN\<close>. The result is the mathematical value of the digits, which is the result of the
  program when it is \<open>exact\<close>.
\<close>

definition parseInt :: "jsstring \<Rightarrow> jsnum" where
  "parseInt s =
     (let t = dropWhile is_js_space s;
          neg = (case t of [] \<Rightarrow> False | c # _ \<Rightarrow> c = 45);
          r = (case t of [] \<Rightarrow> [] | c # cs \<Rightarrow> if c = 45 \<or> c = 43 then cs else t);
          ds = takeWhile is_digit r
      in if ds = [] then NaN
         else Num (if neg then - digits_value ds else digits_value ds))"

text \<open>
  A value of \<open>req.query\<close>: the query parser yields a string, an array (a repeated key) or a
  nested object. \<open>None\<close> stands for \<open>undefined\<close>, an absent key.
\<close>

datatype qval = QStr jsstring | QArr "qval list" | QObj "(jsstring \<times> qval) list"

fun join_comma :: "jsstring list \<Rightarrow> jsstring" where
  "join_comma [] = []"
| "join_comma [s] = s"
| "join_comma (s # t # ts) = s @ 44 # join_comma (t # ts)"

text \<open>\<open>ToString\<close>, which \<open>parseInt\<close> applies to its argument first.\<close>

fun to_string :: "qval \<Rightarrow> jsstring" where
  "to_string (QStr s) = s"
| "to_string (QArr vs) = join_comma (map to_string vs)"
| "to_string (QObj kvs) = js ''[object Object]''"

definition to_string_opt :: "qval option \<Rightarrow> jsstring" where
  "to_string_opt v = (case v of None \<Rightarrow> js ''undefined'' | Some x \<Rightarrow> to_string x)"

type_synonym query = "jsstring \<Rightarrow> qval option"

section \<open>The data model\<close>

text \<open>
  Modelled from the spec: schema/pokemon.js, the schema of the collection, is not part of
  the sources at hand. A document has the five attributes of the data model; a field that
  a document or a request body does not carry is \<open>None\<close>. A request body is a candidate
  document.
\<close>

record names =
  english :: "jsstring option"
  french :: "jsstring option"
  japanese :: "jsstring option"
  chinese :: "jsstring option"

record stats =
  HP :: nat
  Attack :: nat
  Defense :: nat
  SpecialAttack :: nat
  SpecialDefense :: nat
  Speed :: nat

record pokemon =
  poke_id :: "int option"
  poke_name :: "names option"
  poke_type :: "jsstring list option"
  poke_base :: "stats option"
  poke_image :: "jsstring option"

text \<open>
  Modelled from the spec: what schema/pokemon.js configures. \<open>defaults\<close> are the
  store-applied defaults, \<open>validator\<close> the validation of a document on creation and
  \<open>run_validators\<close> the validation of the fields of an update; a validator answers with
  the message of the failure. The store enforces no uniqueness of \<open>id\<close>.
\<close>

record schema =
  defaults :: pokemon
  validator :: "pokemon \<Rightarrow> string option"
  run_validators :: "pokemon \<Rightarrow> string option"

section \<open>The store\<close>

text \<open>
  The collection is the sequence of its documents in the store's order, new documents at
  the end. \<open>calls\<close> counts the operations sent to the store. An awaited operation
  resolves with a value or rejects with the message of an error.
\<close>

record store =
  docs :: "pokemon list"
  calls :: nat

datatype 'a outcome = Resolved 'a | Rejected string

definition tick :: "store \<Rightarrow> store" where
  "tick st = st\<lparr>calls := calls st + 1\<rparr>"

text \<open>\<open>pokemon.find({})\<close>\<close>

definition find_all :: "store \<Rightarrow> pokemon list outcome \<times> store" where
  "find_all st = (Resolved (docs st), tick st)"

text \<open>\<open>pokemon.find({}).skip(skip).limit(limit)\<close>; the store refuses a negative skip.\<close>

definition find_skip_limit :: "store \<Rightarrow> int \<Rightarrow> int \<Rightarrow> pokemon list outcome \<times> store" where
  "find_skip_limit st skip limit =
     (if skip < 0 then (Rejected ''Skip value must be non-negative'', tick st)
      else (Resolved (take (nat limit) (drop (nat skip) (docs st))), tick st))"

text \<open>
  The filter \<open>{ id: pokeId }\<close>. The ids of the documents are integers, so \<open>NaN\<close>, the
  result of a parse that found no digit, is the \<open>id\<close> of no document.
\<close>

fun id_matches :: "jsnum \<Rightarrow> pokemon \<Rightarrow> bool" where
  "id_matches NaN d = False"
| "id_matches (Num n) d = (poke_id d = Some n)"

text \<open>\<open>pokemon.findOne({ id: pokeId })\<close>: the first matching document, or \<open>null\<close>.\<close>

definition findOne :: "store \<Rightarrow> jsnum \<Rightarrow> pokemon option outcome \<times> store" where
  "findOne st n = (Resolved (find (id_matches n) (docs st)), tick st)"

section \<open>Responses\<close>

datatype payload =
    Text string
  | Records "pokemon list"
  | Page int int nat "pokemon list"
  | Record pokemon
  | Error string
  | Deleted string jsnum

record response =
  status :: nat
  payload :: payload

definition internal_error :: response where
  "internal_error = \<lparr>status = 500, payload = Error ''Internal Server Error''\<rparr>"

definition not_found :: response where
  "not_found = \<lparr>status = 404, payload = Error ''Pokemon not found''\<rparr>"

section \<open>The handlers\<close>

text \<open>\<open>parseInt(req.query.page, 10) || 1\<close>: \<open>NaN\<close> and \<open>0\<close> are falsy.\<close>

definition page_or_1 :: "jsnum \<Rightarrow> int" where
  "page_or_1 v = (case v of NaN \<Rightarrow> 1 | Num n \<Rightarrow> if n = 0 then 1 else n)"

text \<open>GET /pokemons/20\<close>

definition get_pokemons_20_respond :: "int \<Rightarrow> int \<Rightarrow> pokemon list outcome \<Rightarrow> response" where
  "get_pokemons_20_respond page limit r =
     (case r of
        Resolved pokemons \<Rightarrow>
          \<lparr>status = 200, payload = Page page limit (length pokemons) pokemons\<rparr>
      | Rejected e \<Rightarrow> internal_error)"

definition get_pokemons_20 :: "store \<Rightarrow> query \<Rightarrow> response \<times> store" where
  "get_pokemons_20 st q =
     (let page = page_or_1 (parseInt (to_string_opt (q (js ''page''))));
          limit = 20;
          skip = (page - 1) * limit;
          (r, st') = find_skip_limit st skip limit
      in (get_pokemons_20_respond page limit r, st'))"

text \<open>GET /pokemons\<close>

definition get_pokemons_respond :: "pokemon list outcome \<Rightarrow> response" where
  "get_pokemons_respond r =
     (case r of
        Resolved pokemons \<Rightarrow> \<lparr>status = 200, payload = Records pokemons\<rparr>
      | Rejected e \<Rightarrow> internal_error)"

definition get_pokemons :: "store \<Rightarrow> response \<times> store" where
  "get_pokemons st = (let (r, st') = find_all st in (get_pokemons_respond r, st'))"

subsection \<open>Search\<close>

text \<open>
  \<open>new RegExp(q, "i")\<close> throws a SyntaxError or yields a matcher, and the store applies the
  matcher to a field. Two classes of patterns are fixed here, after ECMAScript:
  \<^item> a pattern that starts with a quantifier (\<open>*\<close>, \<open>+\<close>, \<open>?\<close>) has nothing to repeat and is a
    SyntaxError;
  \<^item> a pattern of ASCII characters none of which is a metacharacter matches a string that
    contains it, letters compared without their case.
  Every other pattern is left to \<open>engine\<close>, which stands for the regular expression
  engine on the rest of its syntax (\<open>None\<close> for a SyntaxError).
\<close>

definition is_quantifier :: "nat \<Rightarrow> bool" where
  "is_quantifier c \<longleftrightarrow> c = 42 \<or> c = 43 \<or> c = 63"

text \<open>The metacharacters: \<open>$ ( ) * + . ? [ \ ] ^ { | }\<close>\<close>

definition is_metachar :: "nat \<Rightarrow> bool" where
  "is_metachar c \<longleftrightarrow>
     c = 36 \<or> c = 40 \<or> c = 41 \<or> c = 42 \<or> c = 43 \<or> c = 46 \<or> c = 63 \<or>
     c = 91 \<or> c = 92 \<or> c = 93 \<or> c = 94 \<or> c = 123 \<or> c = 124 \<or> c = 125"

definition literal_pattern :: "jsstring \<Rightarrow> bool" where
  "literal_pattern q \<longleftrightarrow> list_all (\<lambda>c. c < 128 \<and> \<not> is_metachar c) q"

text \<open>The canonical form of a code unit under the flag \<open>i\<close>, on ASCII: the upper case letter.\<close>

definition canon :: "nat \<Rightarrow> nat" where
  "canon c = (if 97 \<le> c \<and> c \<le> 122 then c - 32 else c)"

fun ci_prefix :: "jsstring \<Rightarrow> jsstring \<Rightarrow> bool" where
  "ci_prefix [] s = True"
| "ci_prefix (p # ps) [] = False"
| "ci_prefix (p # ps) (c # cs) = (canon p = canon c \<and> ci_prefix ps cs)"

fun ci_contains :: "jsstring \<Rightarrow> jsstring \<Rightarrow> bool" where
  "ci_contains q [] = ci_prefix q []"
| "ci_contains q (c # cs) = (ci_prefix q (c # cs) \<or> ci_contains q cs)"

type_synonym matcher = "jsstring \<Rightarrow> bool"

definition js_regexp :: "(jsstring \<Rightarrow> matcher option) \<Rightarrow> jsstring \<Rightarrow> matcher option" where
  "js_regexp engine q =
     (case q of
        [] \<Rightarrow> Some (ci_contains [])
      | c # cs \<Rightarrow>
          if is_quantifier c then None
          else if literal_pattern q then Some (ci_contains q)
          else engine q)"

text \<open>A field condition \<open>{ "name.english": regex }\<close> holds of a document that has the field.\<close>

definition field_matches :: "matcher \<Rightarrow> (names \<Rightarrow> jsstring option) \<Rightarrow> pokemon \<Rightarrow> bool" where
  "field_matches m field d =
     (case poke_name d of
        None \<Rightarrow> False
      | Some n \<Rightarrow> (case field n of None \<Rightarrow> False | Some s \<Rightarrow> m s))"

text \<open>The \<open>$or\<close> of the four field conditions.\<close>

definition name_matches :: "matcher \<Rightarrow> pokemon \<Rightarrow> bool" where
  "name_matches m d \<longleftrightarrow>
     field_matches m english d \<or> field_matches m french d \<or>
     field_matches m japanese d \<or> field_matches m chinese d"

definition find_by_name :: "store \<Rightarrow> matcher \<Rightarrow> pokemon list outcome \<times> store" where
  "find_by_name st m = (Resolved (filter (name_matches m) (docs st)), tick st)"

text \<open>
  GET /pokemons/search. \<open>(req.query.name || "").trim()\<close>: an absent name and the empty
  string are falsy; an array or an object has no method \<open>trim\<close>, and the TypeError is
  caught like every other exception of the handler.
\<close>

definition missing_name :: response where
  "missing_name = \<lparr>status = 400, payload = Error ''Query param 'name' is required''\<rparr>"

definition get_pokemons_search_respond :: "pokemon list outcome \<Rightarrow> response" where
  "get_pokemons_search_respond r =
     (case r of
        Resolved results \<Rightarrow> \<lparr>status = 200, payload = Records results\<rparr>
      | Rejected e \<Rightarrow> internal_error)"

definition search_with :: "(jsstring \<Rightarrow> matcher option) \<Rightarrow> store \<Rightarrow> jsstring \<Rightarrow> response \<times> store" where
  "search_with engine st s =
     (let q = js_trim s
      in if q = [] then (missing_name, st)
         else (case js_regexp engine q of
                 None \<Rightarrow> (internal_error, st)
               | Some regex \<Rightarrow>
                   (let (r, st') = find_by_name st regex
                    in (get_pokemons_search_respond r, st'))))"

definition get_pokemons_search ::
  "(jsstring \<Rightarrow> matcher option) \<Rightarrow> store \<Rightarrow> query \<Rightarrow> response \<times> store" where
  "get_pokemons_search engine st q =
     (case q (js ''name'') of
        None \<Rightarrow> search_with engine st []
      | Some (QStr s) \<Rightarrow> search_with engine st s
      | Some (QArr vs) \<Rightarrow> (internal_error, st)
      | Some (QObj kvs) \<Rightarrow> (internal_error, st))"

subsection \<open>Create\<close>

definition with_default :: "'a option \<Rightarrow> 'a option \<Rightarrow> 'a option" where
  "with_default d v = (case v of None \<Rightarrow> d | Some x \<Rightarrow> Some x)"

definition apply_defaults :: "pokemon \<Rightarrow> pokemon \<Rightarrow> pokemon" where
  "apply_defaults d b =
     \<lparr>poke_id = with_default (poke_id d) (poke_id b),
      poke_name = with_default (poke_name d) (poke_name b),
      poke_type = with_default (poke_type d) (poke_type b),
      poke_base = with_default (poke_base d) (poke_base b),
      poke_image = with_default (poke_image d) (poke_image b)\<rparr>"

text \<open>
  \<open>pokemon.create(req.body)\<close>: the document is the body with the defaults; it is validated,
  then inserted, and a failed validation sends nothing to the store.
\<close>

definition create :: "schema \<Rightarrow> store \<Rightarrow> pokemon \<Rightarrow> pokemon outcome \<times> store" where
  "create sch st b =
     (let d = apply_defaults (defaults sch) b
      in case validator sch d of
           Some msg \<Rightarrow> (Rejected msg, st)
         | None \<Rightarrow> (Resolved d, tick (st\<lparr>docs := docs st @ [d]\<rparr>)))"

text \<open>POST /pokemons\<close>

definition post_pokemons_respond :: "pokemon outcome \<Rightarrow> response" where
  "post_pokemons_respond r =
     (case r of
        Resolved created \<Rightarrow> \<lparr>status = 201, payload = Record created\<rparr>
      | Rejected msg \<Rightarrow> \<lparr>status = 400, payload = Error msg\<rparr>)"

definition post_pokemons :: "schema \<Rightarrow> store \<Rightarrow> pokemon \<Rightarrow> response \<times> store" where
  "post_pokemons sch st b = (let (r, st') = create sch st b in (post_pokemons_respond r, st'))"

subsection \<open>Get, update and delete by id\<close>

text \<open>GET /pokemons/:id\<close>

definition get_pokemons_id_respond :: "pokemon option outcome \<Rightarrow> response" where
  "get_pokemons_id_respond r =
     (case r of
        Resolved (Some poke) \<Rightarrow> \<lparr>status = 200, payload = Record poke\<rparr>
      | Resolved None \<Rightarrow> not_found
      | Rejected e \<Rightarrow> internal_error)"

definition get_pokemons_id :: "store \<Rightarrow> jsstring \<Rightarrow> response \<times> store" where
  "get_pokemons_id st id_param =
     (let pokeId = parseInt id_param;
          (r, st') = findOne st pokeId
      in (get_pokemons_id_respond r, st'))"

text \<open>
  The update \<open>req.body\<close> sets the fields that the body carries; the other fields of the
  document stay.
\<close>

definition set_fields :: "pokemon \<Rightarrow> pokemon \<Rightarrow> pokemon" where
  "set_fields b d =
     \<lparr>poke_id = with_default (poke_id d) (poke_id b),
      poke_name = with_default (poke_name d) (poke_name b),
      poke_type = with_default (poke_type d) (poke_type b),
      poke_base = with_default (poke_base d) (poke_base b),
      poke_image = with_default (poke_image d) (poke_image b)\<rparr>"

fun update_first :: "('a \<Rightarrow> bool) \<Rightarrow> ('a \<Rightarrow> 'a) \<Rightarrow> 'a list \<Rightarrow> 'a list" where
  "update_first P f [] = []"
| "update_first P f (x # xs) = (if P x then f x # xs else x # update_first P f xs)"

fun remove_first :: "('a \<Rightarrow> bool) \<Rightarrow> 'a list \<Rightarrow> 'a list" where
  "remove_first P [] = []"
| "remove_first P (x # xs) = (if P x then xs else x # remove_first P xs)"

text \<open>
  \<open>pokemon.findOneAndUpdate({ id: pokeId }, req.body, { new: true, runValidators: true })\<close>:
  the update is validated before it is sent; the first matching document is updated and
  returned as it is after the update; without a match the answer is \<open>null\<close> and nothing is
  inserted (there is no \<open>upsert\<close> among the options).
\<close>

definition findOneAndUpdate ::
  "schema \<Rightarrow> store \<Rightarrow> jsnum \<Rightarrow> pokemon \<Rightarrow> pokemon option outcome \<times> store" where
  "findOneAndUpdate sch st n b =
     (case run_validators sch b of
        Some msg \<Rightarrow> (Rejected msg, st)
      | None \<Rightarrow>
          (Resolved (map_option (set_fields b) (find (id_matches n) (docs st))),
           tick (st\<lparr>docs := update_first (id_matches n) (set_fields b) (docs st)\<rparr>)))"

text \<open>PUT /pokemons/:id\<close>

definition put_pokemons_id_respond :: "pokemon option outcome \<Rightarrow> response" where
  "put_pokemons_id_respond r =
     (case r of
        Resolved None \<Rightarrow> not_found
      | Resolved (Some updated) \<Rightarrow> \<lparr>status = 200, payload = Record updated\<rparr>
      | Rejected msg \<Rightarrow> \<lparr>status = 400, payload = Error msg\<rparr>)"

definition put_pokemons_id :: "schema \<Rightarrow> store \<Rightarrow> jsstring \<Rightarrow> pokemon \<Rightarrow> response \<times> store" where
  "put_pokemons_id sch st id_param b =
     (let pokeId = parseInt id_param;
          (r, st') = findOneAndUpdate sch st pokeId b
      in (put_pokemons_id_respond r, st'))"

text \<open>\<open>pokemon.findOneAndDelete({ id: pokeId })\<close>: the first matching document is removed.\<close>

definition findOneAndDelete :: "store \<Rightarrow> jsnum \<Rightarrow> pokemon option outcome \<times> store" where
  "findOneAndDelete st n =
     (Resolved (find (id_matches n) (docs st)),
      tick (st\<lparr>docs := remove_first (id_matches n) (docs st)\<rparr>))"

text \<open>DELETE /pokemons/:id\<close>

definition delete_pokemons_id_respond :: "jsnum \<Rightarrow> pokemon option outcome \<Rightarrow> response" where
  "delete_pokemons_id_respond pokeId r =
     (case r of
        Resolved (Some deletedPokemon) \<Rightarrow>
          \<lparr>status = 200, payload = Deleted ''Pokemon deleted successfully'' pokeId\<rparr>
      | Resolved None \<Rightarrow> not_found
      | Rejected e \<Rightarrow> internal_error)"

definition delete_pokemons_id :: "store \<Rightarrow> jsstring \<Rightarrow> response \<times> store" where
  "delete_pokemons_id st id_param =
     (let pokeId = parseInt id_param;
          (r, st') = findOneAndDelete st pokeId
      in (delete_pokemons_id_respond pokeId r, st'))"

section \<open>Routing\<close>

text \<open>
  The routes of index.js in the order of their registration. A path is the sequence of the
  segments of the path of the URL as the client sent it, the text between its slashes
  after the first one: \<open>/pokemons/20\<close> is the sequence of \<open>pokemons\<close> and \<open>20\<close>, and a slash at
  the end leaves an empty last segment. A literal segment is compared without the case of
  its letters, a parameter takes any segment that is not empty, and one slash at the end
  of the path is allowed. The first route that matches the method and the path handles
  the request; every handler answers, so no later route is tried.
\<close>

datatype verb = GET | POST | PUT | DELETE

datatype seg = Lit jsstring | Param string

datatype handler = HRoot | HList | HPage | HSearch | HCreate | HGetById | HUpdate | HDelete

fun match_path :: "seg list \<Rightarrow> jsstring list \<Rightarrow> (string \<times> jsstring) list option" where
  "match_path [] [] = Some []"
| "match_path [] [s] = (if s = [] then Some [] else None)"
| "match_path (Lit l # ps) (s # ss) =
     (if map canon l = map canon s then match_path ps ss else None)"
| "match_path (Param k # ps) (s # ss) =
     (if s = [] then None else map_option (\<lambda>bs. (k, s) # bs) (match_path ps ss))"
| "match_path ps ss = None"

definition routes :: "(verb \<times> seg list \<times> handler) list" where
  "routes =
     [(GET, [], HRoot),
      (GET, [Lit (js ''pokemons'')], HList),
      (GET, [Lit (js ''pokemons''), Lit (js ''20'')], HPage),
      (GET, [Lit (js ''pokemons''), Lit (js ''search'')], HSearch),
      (POST, [Lit (js ''pokemons'')], HCreate),
      (GET, [Lit (js ''pokemons''), Param ''id''], HGetById),
      (PUT, [Lit (js ''pokemons''), Param ''id''], HUpdate),
      (DELETE, [Lit (js ''pokemons''), Param ''id''], HDelete)]"

fun dispatch ::
  "(verb \<times> seg list \<times> handler) list \<Rightarrow> verb \<Rightarrow> jsstring list \<Rightarrow>
     (handler \<times> (string \<times> jsstring) list) option" where
  "dispatch [] m p = None"
| "dispatch ((m', pat, h) # rs) m p =
     (if m' = m then
        (case match_path pat p of Some bs \<Rightarrow> Some (h, bs) | None \<Rightarrow> dispatch rs m p)
      else dispatch rs m p)"

record request =
  meth :: verb
  path :: "jsstring list"
  query :: query
  body :: pokemon

text \<open>
  The value of a parameter is the segment after \<open>decodeURIComponent\<close>: an escape \<open>%XX\<close> is
  a byte, the bytes of a character are its UTF-8 encoding, and the character is written in
  UTF-16. An escape that is cut short, or bytes that encode no character, are a URIError
  (\<open>None\<close>), which the framework answers for itself.
\<close>

definition hex_digit :: "nat \<Rightarrow> nat option" where
  "hex_digit c =
     (if 48 \<le> c \<and> c \<le> 57 then Some (c - 48)
      else if 65 \<le> c \<and> c \<le> 70 then Some (c - 55)
      else if 97 \<le> c \<and> c \<le> 102 then Some (c - 87)
      else None)"

text \<open>The byte of the two hexadecimal digits at the head of a string.\<close>

definition hex_octet :: "jsstring \<Rightarrow> nat option" where
  "hex_octet s =
     (case s of
        h # l # rest \<Rightarrow>
          (case hex_digit h of
             None \<Rightarrow> None
           | Some a \<Rightarrow> (case hex_digit l of None \<Rightarrow> None | Some b \<Rightarrow> Some (16 * a + b)))
      | _ \<Rightarrow> None)"

text \<open>The number of leading one bits of a byte, counted up to five.\<close>

definition leading_ones :: "nat \<Rightarrow> nat" where
  "leading_ones b =
     (if b < 128 then 0 else if b < 192 then 1 else if b < 224 then 2
      else if b < 240 then 3 else if b < 248 then 4 else 5)"

text \<open>The next \<open>n\<close> escapes of a string, as bytes.\<close>

fun continuation_bytes :: "nat \<Rightarrow> jsstring \<Rightarrow> nat list option" where
  "continuation_bytes 0 s = Some []"
| "continuation_bytes (Suc n) [] = None"
| "continuation_bytes (Suc n) (c # cs) =
     (if c = 37 then
        (case hex_octet cs of
           None \<Rightarrow> None
         | Some b \<Rightarrow> map_option (\<lambda>bs. b # bs) (continuation_bytes n (drop 2 cs)))
      else None)"

text \<open>
  The code point that a leading byte and its continuation bytes encode in UTF-8: every
  continuation byte has the bits \<open>10\<close> in front, and the code point is not written longer
  than it needs, is no surrogate and is at most \<open>0x10FFFF\<close>.
\<close>

definition utf8_code_point :: "nat \<Rightarrow> nat list \<Rightarrow> nat option" where
  "utf8_code_point b bs =
     (let n = Suc (length bs);
          v = foldl (\<lambda>acc c. 64 * acc + (c - 128)) (b mod 2 ^ (7 - n)) bs;
          least = (if n = 2 then 128 else if n = 3 then 2048 else 65536)
      in if list_all (\<lambda>c. 128 \<le> c \<and> c < 192) bs \<and> least \<le> v \<and> v \<le> 1114111
            \<and> \<not> (55296 \<le> v \<and> v \<le> 57343)
         then Some v else None)"

definition utf16_encode :: "nat \<Rightarrow> jsstring" where
  "utf16_encode v =
     (if v < 65536 then [v]
      else [55296 + (v - 65536) div 1024, 56320 + (v - 65536) mod 1024])"

function decodeURIComponent :: "jsstring \<Rightarrow> jsstring option" where
  "decodeURIComponent [] = Some []"
| "decodeURIComponent (c # cs) =
     (if c \<noteq> 37 then map_option (\<lambda>r. c # r) (decodeURIComponent cs)
      else
        (case hex_octet cs of
           None \<Rightarrow> None
         | Some b \<Rightarrow>
             (let n = leading_ones b
              in if n = 0 then map_option (\<lambda>r. b # r) (decodeURIComponent (drop 2 cs))
                 else if n = 1 \<or> 4 < n then None
                 else
                   (case continuation_bytes (n - 1) (drop 2 cs) of
                      None \<Rightarrow> None
                    | Some bs \<Rightarrow>
                        (case utf8_code_point b bs of
                           None \<Rightarrow> None
                         | Some v \<Rightarrow>
                             map_option (\<lambda>r. utf16_encode v @ r)
                               (decodeURIComponent (drop (2 + 3 * (n - 1)) cs)))))))"
  by pat_completeness auto
termination
  by (relation "measure length") auto

fun decode_params :: "(string \<times> jsstring) list \<Rightarrow> (string \<times> jsstring) list option" where
  "decode_params [] = Some []"
| "decode_params ((k, s) # bs) =
     (case decodeURIComponent s of
        None \<Rightarrow> None
      | Some v \<Rightarrow> map_option (\<lambda>r. (k, v) # r) (decode_params bs))"

text \<open>\<open>req.params.id\<close>, as \<open>parseInt\<close> reads it.\<close>

definition param_id :: "(string \<times> jsstring) list \<Rightarrow> jsstring" where
  "param_id bs = (case map_of bs ''id'' of None \<Rightarrow> js ''undefined'' | Some s \<Rightarrow> s)"

definition get_root :: "store \<Rightarrow> response \<times> store" where
  "get_root st = (\<lparr>status = 200, payload = Text ''http://localhost:3000/api-docs''\<rparr>, st)"

definition run_handler ::
  "schema \<Rightarrow> (jsstring \<Rightarrow> matcher option) \<Rightarrow> store \<Rightarrow> request \<Rightarrow>
     handler \<times> (string \<times> jsstring) list \<Rightarrow> response \<times> store" where
  "run_handler sch engine st req hb =
     (case hb of
        (HRoot, bs) \<Rightarrow> get_root st
      | (HList, bs) \<Rightarrow> get_pokemons st
      | (HPage, bs) \<Rightarrow> get_pokemons_20 st (query req)
      | (HSearch, bs) \<Rightarrow> get_pokemons_search engine st (query req)
      | (HCreate, bs) \<Rightarrow> post_pokemons sch st (body req)
      | (HGetById, bs) \<Rightarrow> get_pokemons_id st (param_id bs)
      | (HUpdate, bs) \<Rightarrow> put_pokemons_id sch st (param_id bs) (body req)
      | (HDelete, bs) \<Rightarrow> delete_pokemons_id st (param_id bs))"

text \<open>
  The answer of the service to a request; \<open>None\<close> when no handler of index.js answers:
  no route takes the request, or a parameter of the route cannot be decoded, and the
  request is left to the framework.
\<close>

definition serve ::
  "schema \<Rightarrow> (jsstring \<Rightarrow> matcher option) \<Rightarrow> store \<Rightarrow> request \<Rightarrow>
     (response \<times> store) option" where
  "serve sch engine st req =
     (case dispatch routes (meth req) (path req) of
        None \<Rightarrow> None
      | Some (h, bs) \<Rightarrow>
          map_option (\<lambda>ps. run_handler sch engine st req (h, ps)) (decode_params bs))"

section \<open>Example data\<close>

definition bulbizarre :: pokemon where
  "bulbizarre =
     \<lparr>poke_id = Some 1,
      poke_name = Some \<lparr>english = Some (js ''Bulbasaur''), french = Some (js ''Bulbizarre''),
        japanese = None, chinese = None\<rparr>,
      poke_type = Some [js ''Grass'', js ''Poison''],
      poke_base = Some \<lparr>HP = 45, Attack = 49, Defense = 49, SpecialAttack = 65,
        SpecialDefense = 65, Speed = 45\<rparr>,
      poke_image = Some (js ''http://localhost:3000/assets/pokemons/1.png'')\<rparr>"

definition herbizarre :: pokemon where
  "herbizarre =
     \<lparr>poke_id = Some 1,
      poke_name = Some \<lparr>english = Some (js ''Ivysaur''), french = Some (js ''Herbizarre''),
        japanese = None, chinese = None\<rparr>,
      poke_type = Some [js ''Grass'', js ''Poison''],
      poke_base = Some \<lparr>HP = 60, Attack = 62, Defense = 63, SpecialAttack = 80,
        SpecialDefense = 80, Speed = 60\<rparr>,
      poke_image = Some (js ''http://localhost:3000/assets/pokemons/2.png'')\<rparr>"

definition pikachu :: pokemon where
  "pikachu =
     \<lparr>poke_id = Some 25,
      poke_name = Some \<lparr>english = None, french = Some (js ''Pikachu''),
        japanese = None, chinese = None\<rparr>,
      poke_type = Some [js ''Electric''],
      poke_base = Some \<lparr>HP = 35, Attack = 55, Defense = 40, SpecialAttack = 50,
        SpecialDefense = 50, Speed = 90\<rparr>,
      poke_image = Some (js ''http://localhost:3000/assets/pokemons/25.png'')\<rparr>"

definition rattatac :: pokemon where
  "rattatac =
     \<lparr>poke_id = Some 20,
      poke_name = Some \<lparr>english = Some (js ''Raticate''), french = Some (js ''Rattatac''),
        japanese = None, chinese = None\<rparr>,
      poke_type = Some [js ''Normal''],
      poke_base = Some \<lparr>HP = 55, Attack = 81, Defense = 60, SpecialAttack = 50,
        SpecialDefense = 70, Speed = 97\<rparr>,
      poke_image = Some (js ''http://localhost:3000/assets/pokemons/20.png'')\<rparr>"

definition empty_body :: pokemon where
  "empty_body = \<lparr>poke_id = None, poke_name = None, poke_type = None, poke_base = None,
     poke_image = None\<rparr>"

definition type_not_empty :: "pokemon \<Rightarrow> string option" where
  "type_not_empty d =
     (if poke_type d = Some [] then Some ''type: at least one entry is required'' else None)"

definition strict_schema :: schema where
  "strict_schema =
     \<lparr>defaults = empty_body, validator = type_not_empty, run_validators = type_not_empty\<rparr>"

definition accept :: "pokemon \<Rightarrow> string option" where
  "accept d = None"

definition lax_schema :: schema where
  "lax_schema = \<lparr>defaults = empty_body, validator = accept, run_validators = accept\<rparr>"

definition no_engine :: "jsstring \<Rightarrow> matcher option" where
  "no_engine q = None"

section \<open>Basic facts\<close>

lemma parseInt_undefined: "parseInt (js ''undefined'') = NaN"
  by (simp add: parseInt_def js_def is_js_space_def is_digit_def)

lemma parseInt_1: "parseInt (js ''1'') = Num 1"
  by (simp add: parseInt_def js_def is_js_space_def is_digit_def digits_value_def)

lemma parseInt_abc: "parseInt (js ''abc'') = NaN"
  by (simp add: parseInt_def js_def is_js_space_def is_digit_def)

lemma parseInt_7: "parseInt (js ''7'') = Num 7"
  by (simp add: parseInt_def js_def is_js_space_def is_digit_def digits_value_def)

lemma parseInt_20: "parseInt (js ''20'') = Num 20"
  by (simp add: parseInt_def js_def is_js_space_def is_digit_def digits_value_def)

lemma parseInt_25: "parseInt (js ''25'') = Num 25"
  by (simp add: parseInt_def js_def is_js_space_def is_digit_def digits_value_def)

lemma parseInt_search: "parseInt (js ''search'') = NaN"
  by (simp add: parseInt_def js_def is_js_space_def is_digit_def)

lemma docs_tick: "docs (tick st) = docs st"
  by (simp add: tick_def)

lemma find_no_match: "(\<forall>x\<in>set xs. \<not> P x) \<Longrightarrow> find P xs = None"
  by (simp add: find_None_iff)

lemma find_first_match: "\<exists>x\<in>set xs. P x \<Longrightarrow> \<exists>d. find P xs = Some d \<and> d \<in> set xs \<and> P d"
  by (induction xs) auto

lemma remove_first_no_match: "(\<forall>x\<in>set xs. \<not> P x) \<Longrightarrow> remove_first P xs = xs"
  by (induction xs) auto

lemma remove_first_single:
  "length (filter P xs) = 1 \<Longrightarrow> remove_first P xs = filter (\<lambda>x. \<not> P x) xs"
proof (induction xs)
  case Nil
  then show ?case by simp
next
  case (Cons x xs)
  show ?case
  proof (cases "P x")
    case True
    with Cons.prems have "filter P xs = []" by simp
    then have "\<forall>y\<in>set xs. \<not> P y" by (simp add: filter_empty_conv)
    then have "filter (\<lambda>y. \<not> P y) xs = xs" by simp
    with True show ?thesis by simp
  next
    case False
    with Cons show ?thesis by simp
  qed
qed

lemma single_match_exists: "length (filter P xs) = 1 \<Longrightarrow> \<exists>x\<in>set xs. P x"
  by (induction xs) (auto split: if_splits)

lemma js_trim_blank: "list_all is_js_space s \<Longrightarrow> js_trim s = []"
proof -
  assume "list_all is_js_space s"
  then have d: "dropWhile is_js_space s = []"
    by (simp add: dropWhile_eq_Nil_conv list_all_iff)
  show ?thesis by (simp only: js_trim_def d rev.simps dropWhile.simps)
qed

lemma update_first_no_match: "(\<forall>x\<in>set xs. \<not> P x) \<Longrightarrow> update_first P f xs = xs"
  by (induction xs) auto

lemma find_append_new:
  "(\<forall>x\<in>set xs. \<not> P x) \<Longrightarrow> P y \<Longrightarrow> find P (xs @ [y]) = Some y"
  by (induction xs) auto

section \<open>The paginated list\<close>

lemma find_skip_limit_nonneg:
  "0 \<le> skip \<Longrightarrow>
   find_skip_limit st skip limit = (Resolved (take (nat limit) (drop (nat skip) (docs st))), tick st)"
  by (simp add: find_skip_limit_def)

lemma get_pokemons_20_page:
  assumes "1 \<le> page_or_1 (parseInt (to_string_opt (q (js ''page''))))"
  shows "get_pokemons_20 st q =
     (let page = page_or_1 (parseInt (to_string_opt (q (js ''page''))));
          data = take 20 (drop (nat ((page - 1) * 20)) (docs st))
      in (\<lparr>status = 200, payload = Page page 20 (length data) data\<rparr>, tick st))"
proof -
  from assms have "0 \<le> (page_or_1 (parseInt (to_string_opt (q (js ''page'')))) - 1) * 20"
    by simp
  then show ?thesis
    by (simp add: get_pokemons_20_def Let_def find_skip_limit_nonneg get_pokemons_20_respond_def)
qed

text \<open>
  C1. With a page that is at least 1 after the default (1 for an absent or non-numeric
  parameter), the answer of GET /pokemons/20 is the object of page, limit 20, count and
  data, where data is the sequence of the store without its first (page - 1) * 20 records,
  cut after 20, and count is the length of data: at most 20, and 0 with empty data when
  the page starts behind the last record. The number of skipped records, and with it the
  page, is one that the numbers of the program hold exactly.
\<close>

theorem paginated_list:
  assumes page: "page = page_or_1 (parseInt (to_string_opt (q (js ''page''))))"
    and data: "data = take 20 (drop (nat ((page - 1) * 20)) (docs st))"
    and ge: "1 \<le> page"
    and skip: "exact_int ((page - 1) * 20)"
  shows "fst (get_pokemons_20 st q) = \<lparr>status = 200, payload = Page page 20 (length data) data\<rparr>
     \<and> docs (snd (get_pokemons_20 st q)) = docs st
     \<and> length data \<le> 20
     \<and> (length (docs st) \<le> nat ((page - 1) * 20) \<longrightarrow> length data = 0 \<and> data = [])
     \<and> (q (js ''page'') = None \<longrightarrow> page = 1)
     \<and> (parseInt (to_string_opt (q (js ''page''))) = NaN \<longrightarrow> page = 1)"
proof -
  have "1 \<le> page_or_1 (parseInt (to_string_opt (q (js ''page''))))"
    using page ge by simp
  then have r: "get_pokemons_20 st q =
      (\<lparr>status = 200, payload = Page page 20 (length data) data\<rparr>, tick st)"
    using get_pokemons_20_page [of q st] by (simp add: Let_def page data)
  have absent: "q (js ''page'') = None \<longrightarrow> page = 1"
    by (simp add: page to_string_opt_def parseInt_undefined page_or_1_def)
  have nan: "parseInt (to_string_opt (q (js ''page''))) = NaN \<longrightarrow> page = 1"
    by (simp add: page page_or_1_def)
  show ?thesis
    using absent nan by (simp add: r docs_tick data)
qed

theorem paginated_list_witness:
  "fst (get_pokemons_20 \<lparr>docs = replicate 21 bulbizarre, calls = 0\<rparr> [js ''page'' \<mapsto> QStr (js ''2'')])
     = \<lparr>status = 200, payload = Page 2 20 1 [bulbizarre]\<rparr>
   \<and> fst (get_pokemons_20 \<lparr>docs = replicate 21 bulbizarre, calls = 0\<rparr> [js ''page'' \<mapsto> QStr (js ''3'')])
     = \<lparr>status = 200, payload = Page 3 20 0 []\<rparr>
   \<and> fst (get_pokemons_20 \<lparr>docs = [bulbizarre], calls = 0\<rparr> Map.empty)
     = \<lparr>status = 200, payload = Page 1 20 1 [bulbizarre]\<rparr>"
proof -
  let ?st = "\<lparr>docs = replicate 21 bulbizarre, calls = 0\<rparr>"
  let ?q2 = "[js ''page'' \<mapsto> QStr (js ''2'')]"
  let ?q3 = "[js ''page'' \<mapsto> QStr (js ''3'')]"
  have p2: "(2::int) = page_or_1 (parseInt (to_string_opt (?q2 (js ''page''))))"
    by (simp add: page_or_1_def to_string_opt_def parseInt_def js_def is_js_space_def
        is_digit_def digits_value_def)
  have d2: "[bulbizarre] = take 20 (drop (nat ((2 - 1) * 20)) (docs ?st))"
    by simp
  have g2: "(1::int) \<le> 2" by simp
  have e2: "exact_int ((2 - 1) * 20)" by (simp add: exact_int_def)
  from paginated_list [where page = 2 and q = ?q2 and data = "[bulbizarre]" and st = ?st,
      OF p2 d2 g2 e2]
  have a: "fst (get_pokemons_20 ?st ?q2) = \<lparr>status = 200, payload = Page 2 20 1 [bulbizarre]\<rparr>"
    by simp
  have p3: "(3::int) = page_or_1 (parseInt (to_string_opt (?q3 (js ''page''))))"
    by (simp add: page_or_1_def to_string_opt_def parseInt_def js_def is_js_space_def
        is_digit_def digits_value_def)
  have g3: "(1::int) \<le> 3" by simp
  have e3: "exact_int ((3 - 1) * 20)" by (simp add: exact_int_def)
  note t3 = paginated_list [where page = 3 and q = ?q3 and st = ?st
      and data = "take 20 (drop (nat ((3 - 1) * 20)) (docs ?st))", OF p3 refl g3 e3]
  have behind: "length (docs ?st) \<le> nat ((3 - 1) * 20)" by simp
  from t3 [THEN conjunct2, THEN conjunct2, THEN conjunct2, THEN conjunct1, THEN mp, OF behind]
  have e: "take 20 (drop (nat ((3 - 1) * 20)) (docs ?st)) = []"
    by (rule conjunct2)
  from t3 [THEN conjunct1]
  have b: "fst (get_pokemons_20 ?st ?q3) = \<lparr>status = 200, payload = Page 3 20 0 []\<rparr>"
    unfolding e by simp
  let ?s1 = "\<lparr>docs = [bulbizarre], calls = 0\<rparr>"
  let ?p = "page_or_1 (parseInt (to_string_opt (Map.empty (js ''page''))))"
  have absent: "(Map.empty :: query) (js ''page'') = None" by simp
  have one: "?p = 1"
    by (simp add: to_string_opt_def parseInt_undefined page_or_1_def)
  have g1: "1 \<le> ?p" by (simp only: one)
  have e1: "exact_int ((?p - 1) * 20)" unfolding one by (simp add: exact_int_def)
  note t1 = paginated_list [where page = ?p and q = Map.empty and st = ?s1
      and data = "take 20 (drop (nat ((?p - 1) * 20)) (docs ?s1))", OF refl refl g1 e1]
  from t1 [THEN conjunct2, THEN conjunct2, THEN conjunct2, THEN conjunct2, THEN conjunct1,
      THEN mp, OF absent]
  have one': "?p = 1" .
  from t1 [THEN conjunct1]
  have c: "fst (get_pokemons_20 ?s1 Map.empty) = \<lparr>status = 200, payload = Page 1 20 1 [bulbizarre]\<rparr>"
    unfolding one' by simp
  from a b c show ?thesis by (intro conjI)
qed

text \<open>
  C10. A page parameter that parses to 0 is answered like an absent one: the page is 1 and
  no record is skipped.
\<close>

theorem page_zero_defaults:
  assumes "parseInt (to_string v) = Num 0"
  shows "get_pokemons_20 st (q(js ''page'' \<mapsto> v)) = get_pokemons_20 st (q(js ''page'' := None))
     \<and> fst (get_pokemons_20 st (q(js ''page'' \<mapsto> v)))
         = \<lparr>status = 200, payload = Page 1 20 (length (take 20 (docs st))) (take 20 (docs st))\<rparr>"
  using assms
  by (simp add: get_pokemons_20_def to_string_opt_def parseInt_undefined page_or_1_def
      find_skip_limit_def get_pokemons_20_respond_def)

theorem page_zero_defaults_witness:
  "parseInt (to_string (QStr (js ''0''))) = Num 0
   \<and> fst (get_pokemons_20 \<lparr>docs = [bulbizarre], calls = 0\<rparr> [js ''page'' \<mapsto> QStr (js ''0'')])
       = \<lparr>status = 200, payload = Page 1 20 1 [bulbizarre]\<rparr>"
proof -
  have z: "parseInt (to_string (QStr (js ''0''))) = Num 0"
    by (simp add: parseInt_def js_def is_js_space_def is_digit_def digits_value_def)
  have "fst (get_pokemons_20 \<lparr>docs = [bulbizarre], calls = 0\<rparr> (Map.empty(js ''page'' \<mapsto> QStr (js ''0''))))
      = \<lparr>status = 200, payload = Page 1 20 (length (take 20 (docs \<lparr>docs = [bulbizarre], calls = 0\<rparr>)))
          (take 20 (docs \<lparr>docs = [bulbizarre], calls = 0\<rparr>))\<rparr>"
    using page_zero_defaults [OF z] by (rule conjunct2)
  then show ?thesis using z by simp
qed

section \<open>Get and delete by id\<close>

lemma get_pokemons_id_eq:
  "get_pokemons_id st raw =
     ((case find (id_matches (parseInt raw)) (docs st) of
         Some poke \<Rightarrow> \<lparr>status = 200, payload = Record poke\<rparr>
       | None \<Rightarrow> not_found), tick st)"
  by (simp add: get_pokemons_id_def findOne_def get_pokemons_id_respond_def split: option.splits)

text \<open>
  C4. GET /pokemons/:id parses the parameter as an integer. When a stored record has the
  parsed value as its id, the answer is 200 with such a record, the first of the store;
  when no record has it, the answer is 404 with the error "Pokemon not found"; a parameter
  without digits parses to NaN, which is the id of no record. The parsed value is one that
  the numbers of the program hold exactly.
\<close>

theorem get_by_id:
  assumes "exact (parseInt raw)"
  shows "((\<exists>x\<in>set (docs st). id_matches (parseInt raw) x) \<longrightarrow>
      (\<exists>d. find (id_matches (parseInt raw)) (docs st) = Some d \<and> d \<in> set (docs st)
         \<and> id_matches (parseInt raw) d
         \<and> fst (get_pokemons_id st raw) = \<lparr>status = 200, payload = Record d\<rparr>))
   \<and> ((\<forall>x\<in>set (docs st). \<not> id_matches (parseInt raw) x) \<longrightarrow>
      fst (get_pokemons_id st raw) = \<lparr>status = 404, payload = Error ''Pokemon not found''\<rparr>)
   \<and> (parseInt raw = NaN \<longrightarrow>
      (\<forall>x\<in>set (docs st). \<not> id_matches (parseInt raw) x)
      \<and> fst (get_pokemons_id st raw) = \<lparr>status = 404, payload = Error ''Pokemon not found''\<rparr>)"
proof (intro conjI impI)
  assume "\<exists>x\<in>set (docs st). id_matches (parseInt raw) x"
  then have "\<exists>d. find (id_matches (parseInt raw)) (docs st) = Some d
      \<and> d \<in> set (docs st) \<and> id_matches (parseInt raw) d"
    by (rule find_first_match)
  then show "\<exists>d. find (id_matches (parseInt raw)) (docs st) = Some d \<and> d \<in> set (docs st)
         \<and> id_matches (parseInt raw) d
         \<and> fst (get_pokemons_id st raw) = \<lparr>status = 200, payload = Record d\<rparr>"
    by (auto simp add: get_pokemons_id_eq)
next
  assume "\<forall>x\<in>set (docs st). \<not> id_matches (parseInt raw) x"
  then have "find (id_matches (parseInt raw)) (docs st) = None"
    by (rule find_no_match)
  then show "fst (get_pokemons_id st raw) = \<lparr>status = 404, payload = Error ''Pokemon not found''\<rparr>"
    by (simp add: get_pokemons_id_eq not_found_def)
next
  assume nan: "parseInt raw = NaN"
  then show "\<forall>x\<in>set (docs st). \<not> id_matches (parseInt raw) x"
    by simp
  then have "find (id_matches (parseInt raw)) (docs st) = None"
    by (rule find_no_match)
  then show "fst (get_pokemons_id st raw) = \<lparr>status = 404, payload = Error ''Pokemon not found''\<rparr>"
    by (simp add: get_pokemons_id_eq not_found_def)
qed

theorem get_by_id_witness:
  "fst (get_pokemons_id \<lparr>docs = [bulbizarre], calls = 0\<rparr> (js ''1''))
      = \<lparr>status = 200, payload = Record bulbizarre\<rparr>
   \<and> fst (get_pokemons_id \<lparr>docs = [bulbizarre], calls = 0\<rparr> (js ''7''))
      = \<lparr>status = 404, payload = Error ''Pokemon not found''\<rparr>
   \<and> fst (get_pokemons_id \<lparr>docs = [bulbizarre], calls = 0\<rparr> (js ''abc''))
      = \<lparr>status = 404, payload = Error ''Pokemon not found''\<rparr>"
proof -
  let ?st = "\<lparr>docs = [bulbizarre], calls = 0\<rparr>"
  have e1: "exact (parseInt (js ''1''))" by (simp add: parseInt_1 exact_int_def)
  have e2: "exact (parseInt (js ''abc''))" by (simp add: parseInt_abc)
  have e3: "exact (parseInt (js ''7''))" by (simp add: parseInt_7 exact_int_def)
  note thm1 = get_by_id [where st = ?st, OF e1]
  note thm2 = get_by_id [where st = ?st, OF e2]
  note thm3 = get_by_id [where st = ?st, OF e3]
  have m: "\<exists>x\<in>set (docs ?st). id_matches (parseInt (js ''1'')) x"
    by (simp add: parseInt_1 bulbizarre_def)
  from thm1 [THEN conjunct1, THEN mp, OF m]
  obtain d where d: "d \<in> set (docs ?st)"
    and r: "fst (get_pokemons_id ?st (js ''1'')) = \<lparr>status = 200, payload = Record d\<rparr>"
    by (elim exE conjE)
  from d have "d = bulbizarre" by simp
  with r have a: "fst (get_pokemons_id ?st (js ''1'')) = \<lparr>status = 200, payload = Record bulbizarre\<rparr>"
    by simp
  from thm2 [THEN conjunct2, THEN conjunct2, THEN mp, OF parseInt_abc]
  have b: "fst (get_pokemons_id ?st (js ''abc''))
      = \<lparr>status = 404, payload = Error ''Pokemon not found''\<rparr>"
    by (rule conjunct2)
  have n: "\<forall>x\<in>set (docs ?st). \<not> id_matches (parseInt (js ''7'')) x"
    by (simp add: parseInt_7 bulbizarre_def)
  from thm3 [THEN conjunct2, THEN conjunct1, THEN mp, OF n]
  have c: "fst (get_pokemons_id ?st (js ''7''))
      = \<lparr>status = 404, payload = Error ''Pokemon not found''\<rparr>" .
  from a c b show ?thesis by (intro conjI)
qed

lemma delete_pokemons_id_eq:
  "delete_pokemons_id st raw =
     ((case find (id_matches (parseInt raw)) (docs st) of
         Some deleted \<Rightarrow>
           \<lparr>status = 200, payload = Deleted ''Pokemon deleted successfully'' (parseInt raw)\<rparr>
       | None \<Rightarrow> not_found),
      tick (st\<lparr>docs := remove_first (id_matches (parseInt raw)) (docs st)\<rparr>))"
  by (simp add: delete_pokemons_id_def findOneAndDelete_def delete_pokemons_id_respond_def
      Let_def split: option.splits)

lemma delete_absent:
  assumes "\<forall>x\<in>set (docs st). \<not> id_matches (parseInt raw) x"
  shows "fst (delete_pokemons_id st raw) = not_found"
    and "docs (snd (delete_pokemons_id st raw)) = docs st"
  using assms
  by (simp_all add: delete_pokemons_id_eq find_no_match remove_first_no_match docs_tick)

text \<open>
  C5. With exactly one record of the id, DELETE /pokemons/:id answers 200 with the message
  and the id and removes that record, and the same request again answers 404; a delete of
  an id that no record has answers 404 and leaves the records as they are. The parsed id
  is one that the numbers of the program hold exactly.
\<close>

theorem delete_twice:
  assumes "exact (parseInt raw)"
  shows "(parseInt raw = Num n \<and> length (filter (\<lambda>d. poke_id d = Some n) (docs st)) = 1 \<longrightarrow>
      fst (delete_pokemons_id st raw)
        = \<lparr>status = 200, payload = Deleted ''Pokemon deleted successfully'' (Num n)\<rparr>
      \<and> docs (snd (delete_pokemons_id st raw)) = filter (\<lambda>d. poke_id d \<noteq> Some n) (docs st)
      \<and> fst (delete_pokemons_id (snd (delete_pokemons_id st raw)) raw)
        = \<lparr>status = 404, payload = Error ''Pokemon not found''\<rparr>
      \<and> docs (snd (delete_pokemons_id (snd (delete_pokemons_id st raw)) raw))
        = docs (snd (delete_pokemons_id st raw)))
   \<and> ((\<forall>x\<in>set (docs st). \<not> id_matches (parseInt raw) x) \<longrightarrow>
      fst (delete_pokemons_id st raw) = \<lparr>status = 404, payload = Error ''Pokemon not found''\<rparr>
      \<and> docs (snd (delete_pokemons_id st raw)) = docs st)"
proof (intro conjI impI)
  assume "\<forall>x\<in>set (docs st). \<not> id_matches (parseInt raw) x"
  then show "fst (delete_pokemons_id st raw) = \<lparr>status = 404, payload = Error ''Pokemon not found''\<rparr>"
    and "docs (snd (delete_pokemons_id st raw)) = docs st"
    by (simp_all add: delete_absent not_found_def)
next
  assume a: "parseInt raw = Num n \<and> length (filter (\<lambda>d. poke_id d = Some n) (docs st)) = 1"
  define st1 where "st1 = snd (delete_pokemons_id st raw)"
  have im: "id_matches (parseInt raw) = (\<lambda>d. poke_id d = Some n)"
    using a by (simp add: fun_eq_iff)
  from a have one: "length (filter (id_matches (parseInt raw)) (docs st)) = 1"
    unfolding im by simp
  then have "\<exists>x\<in>set (docs st). id_matches (parseInt raw) x"
    by (rule single_match_exists)
  then have "\<exists>d. find (id_matches (parseInt raw)) (docs st) = Some d
      \<and> d \<in> set (docs st) \<and> id_matches (parseInt raw) d"
    by (rule find_first_match)
  then obtain d where "find (id_matches (parseInt raw)) (docs st) = Some d"
    by (elim exE conjE)
  then show r1: "fst (delete_pokemons_id st raw)
        = \<lparr>status = 200, payload = Deleted ''Pokemon deleted successfully'' (Num n)\<rparr>"
    using a by (simp add: delete_pokemons_id_eq)
  have d1: "docs st1 = filter (\<lambda>d. \<not> id_matches (parseInt raw) d) (docs st)"
    using one by (simp add: st1_def delete_pokemons_id_eq docs_tick remove_first_single)
  then show "docs (snd (delete_pokemons_id st raw)) = filter (\<lambda>d. poke_id d \<noteq> Some n) (docs st)"
    by (simp add: st1_def im)
  from d1 have none: "\<forall>x\<in>set (docs st1). \<not> id_matches (parseInt raw) x"
    by simp
  from delete_absent [OF none]
  show "fst (delete_pokemons_id (snd (delete_pokemons_id st raw)) raw)
        = \<lparr>status = 404, payload = Error ''Pokemon not found''\<rparr>"
    and "docs (snd (delete_pokemons_id (snd (delete_pokemons_id st raw)) raw))
        = docs (snd (delete_pokemons_id st raw))"
    by (simp_all add: st1_def not_found_def)
qed

theorem delete_twice_witness:
  "fst (delete_pokemons_id \<lparr>docs = [bulbizarre], calls = 0\<rparr> (js ''1''))
     = \<lparr>status = 200, payload = Deleted ''Pokemon deleted successfully'' (Num 1)\<rparr>
   \<and> docs (snd (delete_pokemons_id \<lparr>docs = [bulbizarre], calls = 0\<rparr> (js ''1''))) = []
   \<and> fst (delete_pokemons_id (snd (delete_pokemons_id \<lparr>docs = [bulbizarre], calls = 0\<rparr> (js ''1''))) (js ''1''))
     = \<lparr>status = 404, payload = Error ''Pokemon not found''\<rparr>
   \<and> fst (delete_pokemons_id \<lparr>docs = [bulbizarre], calls = 0\<rparr> (js ''7''))
     = \<lparr>status = 404, payload = Error ''Pokemon not found''\<rparr>
   \<and> docs (snd (delete_pokemons_id \<lparr>docs = [bulbizarre], calls = 0\<rparr> (js ''7''))) = [bulbizarre]"
proof -
  let ?st = "\<lparr>docs = [bulbizarre], calls = 0\<rparr>"
  have h: "parseInt (js ''1'') = Num 1
      \<and> length (filter (\<lambda>d. poke_id d = Some 1) (docs ?st)) = 1"
    by (simp add: parseInt_1 bulbizarre_def)
  have f: "filter (\<lambda>d. poke_id d \<noteq> Some 1) (docs ?st) = []"
    by (simp add: bulbizarre_def)
  have e1: "exact (parseInt (js ''1''))" by (simp add: parseInt_1 exact_int_def)
  have e7: "exact (parseInt (js ''7''))" by (simp add: parseInt_7 exact_int_def)
  note r = delete_twice [where n = 1 and st = ?st, OF e1, THEN conjunct1, THEN mp, OF h]
  from r have r1: "fst (delete_pokemons_id ?st (js ''1''))
     = \<lparr>status = 200, payload = Deleted ''Pokemon deleted successfully'' (Num 1)\<rparr>"
    by (rule conjunct1)
  from r have r2: "docs (snd (delete_pokemons_id ?st (js ''1''))) = []"
    unfolding f by (elim conjE)
  from r have r3: "fst (delete_pokemons_id (snd (delete_pokemons_id ?st (js ''1''))) (js ''1''))
     = \<lparr>status = 404, payload = Error ''Pokemon not found''\<rparr>"
    by (elim conjE)
  have n: "\<forall>x\<in>set (docs ?st). \<not> id_matches (parseInt (js ''7'')) x"
    by (simp add: parseInt_7 bulbizarre_def)
  note s = delete_twice [where n = 7 and st = ?st, OF e7, THEN conjunct2, THEN mp, OF n]
  from s have r4: "fst (delete_pokemons_id ?st (js ''7''))
     = \<lparr>status = 404, payload = Error ''Pokemon not found''\<rparr>"
    by (rule conjunct1)
  from s have r5: "docs (snd (delete_pokemons_id ?st (js ''7''))) = [bulbizarre]"
    by simp
  from r1 r2 r3 r4 r5 show ?thesis by (intro conjI)
qed

section \<open>Search\<close>

lemma search_with_blank: "js_trim s = [] \<Longrightarrow> search_with engine st s = (missing_name, st)"
  by (simp add: search_with_def)

text \<open>
  C7. When the query has no name, or a name that is empty or made of white space only,
  GET /pokemons/search answers 400 with an error body, whatever else the query carries,
  and the store is returned as it was: no operation has been sent to it.
\<close>

theorem search_blank_name:
  assumes "q (js ''name'') = None
     \<or> (\<exists>s. q (js ''name'') = Some (QStr s) \<and> list_all is_js_space s)"
  shows "get_pokemons_search engine st q
     = (\<lparr>status = 400, payload = Error ''Query param 'name' is required''\<rparr>, st)"
proof -
  from assms consider "q (js ''name'') = None"
    | s where "q (js ''name'') = Some (QStr s)" "list_all is_js_space s"
    by (elim disjE exE conjE)
  then have "get_pokemons_search engine st q = (missing_name, st)"
  proof cases
    case 1
    then show ?thesis
      by (simp add: get_pokemons_search_def search_with_blank js_trim_def)
  next
    case 2
    then show ?thesis
      by (simp add: get_pokemons_search_def search_with_blank js_trim_blank)
  qed
  then show ?thesis by (simp add: missing_name_def)
qed

theorem search_blank_name_witness:
  "get_pokemons_search no_engine \<lparr>docs = [bulbizarre], calls = 3\<rparr>
      [js ''page'' \<mapsto> QStr (js ''2''), js ''name'' \<mapsto> QStr (js ''  '')]
    = (\<lparr>status = 400, payload = Error ''Query param 'name' is required''\<rparr>,
       \<lparr>docs = [bulbizarre], calls = 3\<rparr>)"
proof -
  have "[js ''page'' \<mapsto> QStr (js ''2''), js ''name'' \<mapsto> QStr (js ''  '')] (js ''name'') = None
     \<or> (\<exists>s. [js ''page'' \<mapsto> QStr (js ''2''), js ''name'' \<mapsto> QStr (js ''  '')] (js ''name'')
            = Some (QStr s) \<and> list_all is_js_space s)"
    by (simp add: js_def is_js_space_def)
  then show ?thesis by (rule search_blank_name)
qed

lemma ci_prefix_iff:
  "ci_prefix p t \<longleftrightarrow> (\<exists>w v. t = w @ v \<and> map canon w = map canon p)"
proof (induction p t rule: ci_prefix.induct)
  case (1 s)
  then show ?case by simp
next
  case (2 p ps)
  then show ?case by simp
next
  case (3 p ps c cs)
  show ?case
  proof
    assume "ci_prefix (p # ps) (c # cs)"
    then have pc: "canon p = canon c" and "ci_prefix ps cs" by simp_all
    with 3 obtain w v where "cs = w @ v" "map canon w = map canon ps" by blast
    with pc have "c # cs = (c # w) @ v \<and> map canon (c # w) = map canon (p # ps)" by simp
    then show "\<exists>w v. c # cs = w @ v \<and> map canon w = map canon (p # ps)" by blast
  next
    assume "\<exists>w v. c # cs = w @ v \<and> map canon w = map canon (p # ps)"
    then obtain w v where wv: "c # cs = w @ v" "map canon w = map canon (p # ps)" by blast
    then obtain w' where w': "w = c # w'" by (cases w) auto
    with wv have "cs = w' @ v" "map canon w' = map canon ps" "canon c = canon p" by simp_all
    with 3 show "ci_prefix (p # ps) (c # cs)" by auto
  qed
qed

lemma ci_contains_iff:
  "ci_contains p t \<longleftrightarrow> (\<exists>u w v. t = u @ w @ v \<and> map canon w = map canon p)"
proof (induction t)
  case Nil
  then show ?case by (simp add: ci_prefix_iff)
next
  case (Cons c cs)
  show ?case
  proof
    assume "ci_contains p (c # cs)"
    then consider "ci_prefix p (c # cs)" | "ci_contains p cs" by auto
    then show "\<exists>u w v. c # cs = u @ w @ v \<and> map canon w = map canon p"
    proof cases
      case 1
      then obtain w v where "c # cs = w @ v" "map canon w = map canon p"
        unfolding ci_prefix_iff by blast
      then have "c # cs = [] @ w @ v \<and> map canon w = map canon p" by simp
      then show ?thesis by blast
    next
      case 2
      with Cons obtain u w v where "cs = u @ w @ v" "map canon w = map canon p" by blast
      then have "c # cs = (c # u) @ w @ v \<and> map canon w = map canon p" by simp
      then show ?thesis by blast
    qed
  next
    assume "\<exists>u w v. c # cs = u @ w @ v \<and> map canon w = map canon p"
    then obtain u w v where uwv: "c # cs = u @ w @ v" "map canon w = map canon p" by blast
    show "ci_contains p (c # cs)"
    proof (cases u)
      case Nil
      with uwv have "ci_prefix p (c # cs)" unfolding ci_prefix_iff by auto
      then show ?thesis by simp
    next
      case (Cons a u')
      with uwv have "cs = u' @ w @ v" by simp
      with uwv Cons.IH have "ci_contains p cs" by blast
      then show ?thesis by simp
    qed
  qed
qed

lemma literal_no_quantifier: "literal_pattern (c # cs) \<Longrightarrow> \<not> is_quantifier c"
  by (auto simp add: literal_pattern_def is_quantifier_def is_metachar_def)

lemma js_regexp_literal: "literal_pattern p \<Longrightarrow> js_regexp engine p = Some (ci_contains p)"
  by (cases p) (simp_all add: js_regexp_def literal_no_quantifier)

lemma get_pokemons_search_eq:
  assumes "q (js ''name'') = Some (QStr s)" and "js_trim s \<noteq> []"
  shows "get_pokemons_search engine st q =
     (case js_regexp engine (js_trim s) of
        None \<Rightarrow> (internal_error, st)
      | Some m \<Rightarrow> (\<lparr>status = 200, payload = Records (filter (name_matches m) (docs st))\<rparr>, tick st))"
  using assms
  by (simp add: get_pokemons_search_def search_with_def find_by_name_def
      get_pokemons_search_respond_def split: option.splits)

text \<open>
  C2, amended. For a name that is not blank, q being the trimmed name: when q is a valid
  pattern, the search answers 200 with the stored records, in the order of the store, of
  which one of name.english, name.french, name.japanese, name.chinese matches the
  case-insensitive regular expression built from q as it is; when q is no valid pattern,
  the answer is the error 500. A q of ASCII characters without metacharacter is a valid
  pattern, and it matches the strings that contain q up to the case of the letters.
\<close>

theorem search_by_name:
  assumes "q (js ''name'') = Some (QStr s)" and "js_trim s \<noteq> []"
  shows "(js_regexp engine (js_trim s) = Some m \<longrightarrow>
      fst (get_pokemons_search engine st q)
        = \<lparr>status = 200,
           payload = Records (filter (\<lambda>d. field_matches m english d \<or> field_matches m french d
                       \<or> field_matches m japanese d \<or> field_matches m chinese d) (docs st))\<rparr>)
   \<and> (js_regexp engine (js_trim s) = None \<longrightarrow>
      get_pokemons_search engine st q
        = (\<lparr>status = 500, payload = Error ''Internal Server Error''\<rparr>, st))
   \<and> (literal_pattern (js_trim s) \<longrightarrow>
      js_regexp engine (js_trim s) = Some (ci_contains (js_trim s)))
   \<and> (ci_contains (js_trim s) t
        \<longleftrightarrow> (\<exists>u w v. t = u @ w @ v \<and> map canon w = map canon (js_trim s)))"
proof (intro conjI impI)
  assume "js_regexp engine (js_trim s) = Some m"
  then have "fst (get_pokemons_search engine st q)
      = \<lparr>status = 200, payload = Records (filter (name_matches m) (docs st))\<rparr>"
    by (simp add: get_pokemons_search_eq [of q s, OF assms])
  moreover have "name_matches m = (\<lambda>d. field_matches m english d \<or> field_matches m french d
      \<or> field_matches m japanese d \<or> field_matches m chinese d)"
    by (simp add: fun_eq_iff name_matches_def)
  ultimately show "fst (get_pokemons_search engine st q)
      = \<lparr>status = 200,
         payload = Records (filter (\<lambda>d. field_matches m english d \<or> field_matches m french d
                     \<or> field_matches m japanese d \<or> field_matches m chinese d) (docs st))\<rparr>"
    by simp
next
  assume "js_regexp engine (js_trim s) = None"
  then show "get_pokemons_search engine st q
      = (\<lparr>status = 500, payload = Error ''Internal Server Error''\<rparr>, st)"
    by (simp add: get_pokemons_search_eq [of q s, OF assms] internal_error_def)
next
  assume "literal_pattern (js_trim s)"
  then show "js_regexp engine (js_trim s) = Some (ci_contains (js_trim s))"
    by (rule js_regexp_literal)
next
  show "ci_contains (js_trim s) t
      \<longleftrightarrow> (\<exists>u w v. t = u @ w @ v \<and> map canon w = map canon (js_trim s))"
    by (rule ci_contains_iff)
qed

lemma trim_star: "js_trim (js ''*'') = js ''*''"
  by (simp add: js_trim_def js_def is_js_space_def)

lemma trim_bulb: "js_trim (js '' bulb '') = js ''bulb''"
  by (simp add: js_trim_def js_def is_js_space_def)

theorem search_by_name_witness:
  "fst (get_pokemons_search no_engine \<lparr>docs = [pikachu, bulbizarre], calls = 0\<rparr>
          [js ''name'' \<mapsto> QStr (js '' bulb '')])
     = \<lparr>status = 200, payload = Records [bulbizarre]\<rparr>
   \<and> get_pokemons_search no_engine \<lparr>docs = [pikachu, bulbizarre], calls = 0\<rparr>
          [js ''name'' \<mapsto> QStr (js ''*'')]
     = (\<lparr>status = 500, payload = Error ''Internal Server Error''\<rparr>,
        \<lparr>docs = [pikachu, bulbizarre], calls = 0\<rparr>)"
proof -
  let ?q = "[js ''name'' \<mapsto> QStr (js '' bulb '')]"
  let ?q' = "[js ''name'' \<mapsto> QStr (js ''*'')]"
  let ?st = "\<lparr>docs = [pikachu, bulbizarre], calls = 0\<rparr>"
  have a: "?q (js ''name'') = Some (QStr (js '' bulb ''))"
    by simp
  have b: "js_trim (js '' bulb '') \<noteq> []"
    unfolding trim_bulb by (simp add: js_def)
  note t = search_by_name [where q = ?q and s = "js '' bulb ''" and engine = no_engine
      and m = "ci_contains (js ''bulb'')" and st = ?st, OF a b]
  have lit: "literal_pattern (js_trim (js '' bulb ''))"
    unfolding trim_bulb by (simp add: literal_pattern_def js_def is_metachar_def)
  from t [THEN conjunct2, THEN conjunct2, THEN conjunct1, THEN mp, OF lit]
  have m: "js_regexp no_engine (js_trim (js '' bulb '')) = Some (ci_contains (js ''bulb''))"
    by (simp only: trim_bulb)
  from t [THEN conjunct1, THEN mp, OF m]
  have found: "fst (get_pokemons_search no_engine ?st ?q)
      = \<lparr>status = 200, payload = Records [bulbizarre]\<rparr>"
    by (simp add: field_matches_def pikachu_def bulbizarre_def js_def canon_def)
  have a': "?q' (js ''name'') = Some (QStr (js ''*''))"
    by simp
  have b': "js_trim (js ''*'') \<noteq> []"
    unfolding trim_star by (simp add: js_def)
  have bad: "js_regexp no_engine (js_trim (js ''*'')) = None"
    unfolding trim_star by (simp add: js_regexp_def js_def is_quantifier_def)
  from search_by_name [where q = ?q' and s = "js ''*''" and engine = no_engine and st = ?st,
      OF a' b', THEN conjunct2, THEN conjunct1, THEN mp, OF bad]
  have refused: "get_pokemons_search no_engine ?st ?q'
      = (\<lparr>status = 500, payload = Error ''Internal Server Error''\<rparr>, ?st)" .
  from found refused show ?thesis by (rule conjI)
qed

text \<open>
  C2 as stated fails: the name \<open>*\<close> is not blank, and the answer is the error 500, not a
  sequence of records.
\<close>

theorem search_by_name_counterexample:
  "get_pokemons_search no_engine \<lparr>docs = [bulbizarre], calls = 0\<rparr>
      [js ''name'' \<mapsto> QStr (js ''*'')]
     = (\<lparr>status = 500, payload = Error ''Internal Server Error''\<rparr>,
        \<lparr>docs = [bulbizarre], calls = 0\<rparr>)"
  by (simp add: get_pokemons_search_def search_with_def js_trim_def js_def is_js_space_def
      js_regexp_def is_quantifier_def internal_error_def)

section \<open>Create, then get\<close>

lemma apply_defaults_full:
  assumes "poke_id b = Some n" "poke_name b = Some nm" "poke_type b = Some ty"
    "poke_base b = Some bs" "poke_image b = Some im"
  shows "apply_defaults d b = b"
  using assms by (cases b) (simp add: apply_defaults_def with_default_def)

lemma post_pokemons_eq:
  "post_pokemons sch st b =
     (case validator sch (apply_defaults (defaults sch) b) of
        Some msg \<Rightarrow> (\<lparr>status = 400, payload = Error msg\<rparr>, st)
      | None \<Rightarrow>
          (\<lparr>status = 201, payload = Record (apply_defaults (defaults sch) b)\<rparr>,
           tick (st\<lparr>docs := docs st @ [apply_defaults (defaults sch) b]\<rparr>)))"
  by (simp add: post_pokemons_def create_def post_pokemons_respond_def Let_def
      split: option.splits)

text \<open>
  C3, amended. After a successful create of a body that carries id, name, type, base and
  image, where no stored record had the id before, the answer of the create is 201 with
  the body, and GET /pokemons/:id with that id answers 200 with the same record: its id,
  name, type, base and image are those of the body. The id is one that the numbers of the
  program hold exactly.
\<close>

theorem create_then_get:
  assumes fields: "poke_id b = Some n" "poke_name b = Some nm" "poke_type b = Some ty"
      "poke_base b = Some bs" "poke_image b = Some im"
    and created: "status (fst (post_pokemons sch st b)) = 201"
    and raw: "parseInt raw = Num n"
    and exact: "exact_int n"
    and fresh: "\<forall>x\<in>set (docs st). poke_id x \<noteq> Some n"
  shows "fst (post_pokemons sch st b) = \<lparr>status = 201, payload = Record b\<rparr>
     \<and> fst (get_pokemons_id (snd (post_pokemons sch st b)) raw)
          = \<lparr>status = 200, payload = Record b\<rparr>"
proof -
  have full: "apply_defaults (defaults sch) b = b"
    using fields by (rule apply_defaults_full)
  have valid: "validator sch b = None"
  proof (cases "validator sch b")
    case None
    then show ?thesis .
  next
    case (Some msg)
    then have "status (fst (post_pokemons sch st b)) = 400"
      by (simp add: post_pokemons_eq full)
    with created show ?thesis by simp
  qed
  have post: "post_pokemons sch st b
      = (\<lparr>status = 201, payload = Record b\<rparr>, tick (st\<lparr>docs := docs st @ [b]\<rparr>))"
    by (simp add: post_pokemons_eq full valid)
  have docs1: "docs (snd (post_pokemons sch st b)) = docs st @ [b]"
    by (simp add: post docs_tick)
  have im: "id_matches (parseInt raw) = (\<lambda>x. poke_id x = Some n)"
    by (simp add: raw fun_eq_iff)
  from fresh fields(1) have "find (\<lambda>x. poke_id x = Some n) (docs st @ [b]) = Some b"
    by (intro find_append_new) simp_all
  then have get: "fst (get_pokemons_id (snd (post_pokemons sch st b)) raw)
      = \<lparr>status = 200, payload = Record b\<rparr>"
    by (simp add: get_pokemons_id_eq docs1 im)
  from post get show ?thesis by simp
qed

theorem create_then_get_witness:
  "fst (post_pokemons lax_schema \<lparr>docs = [bulbizarre], calls = 0\<rparr> pikachu)
     = \<lparr>status = 201, payload = Record pikachu\<rparr>
   \<and> fst (get_pokemons_id (snd (post_pokemons lax_schema \<lparr>docs = [bulbizarre], calls = 0\<rparr> pikachu))
          (js ''25''))
     = \<lparr>status = 200, payload = Record pikachu\<rparr>"
proof -
  let ?st = "\<lparr>docs = [bulbizarre], calls = 0\<rparr>"
  have c: "status (fst (post_pokemons lax_schema ?st pikachu)) = 201"
    by (simp add: post_pokemons_eq lax_schema_def accept_def)
  have e: "exact_int 25"
    by (simp add: exact_int_def)
  have f: "\<forall>x\<in>set (docs ?st). poke_id x \<noteq> Some 25"
    by (simp add: bulbizarre_def)
  show ?thesis
    by (rule create_then_get [where b = pikachu and n = 25 and sch = lax_schema and st = ?st
          and raw = "js ''25''", OF _ _ _ _ _ c parseInt_25 e f])
      (simp_all add: pikachu_def)
qed

text \<open>
  C3 as stated fails: the store keeps two records of one id, and the get answers with the
  older one, whose name is not the name of the body just created.
\<close>

theorem create_then_get_counterexample:
  "fst (post_pokemons lax_schema \<lparr>docs = [bulbizarre], calls = 0\<rparr> herbizarre)
     = \<lparr>status = 201, payload = Record herbizarre\<rparr>
   \<and> parseInt (js ''1'') = Num 1 \<and> poke_id herbizarre = Some 1
   \<and> fst (get_pokemons_id (snd (post_pokemons lax_schema \<lparr>docs = [bulbizarre], calls = 0\<rparr> herbizarre))
          (js ''1''))
     = \<lparr>status = 200, payload = Record bulbizarre\<rparr>
   \<and> poke_name bulbizarre \<noteq> poke_name herbizarre"
proof -
  have full: "apply_defaults empty_body herbizarre = herbizarre"
    by (simp add: apply_defaults_def with_default_def herbizarre_def)
  have post: "post_pokemons lax_schema \<lparr>docs = [bulbizarre], calls = 0\<rparr> herbizarre
      = (\<lparr>status = 201, payload = Record herbizarre\<rparr>, \<lparr>docs = [bulbizarre, herbizarre], calls = 1\<rparr>)"
    by (simp add: post_pokemons_eq lax_schema_def accept_def full tick_def)
  have one: "parseInt (js ''1'') = Num 1"
    by (simp add: parseInt_def js_def is_js_space_def is_digit_def digits_value_def)
  have get: "fst (get_pokemons_id \<lparr>docs = [bulbizarre, herbizarre], calls = 1\<rparr> (js ''1''))
      = \<lparr>status = 200, payload = Record bulbizarre\<rparr>"
    by (simp add: get_pokemons_id_eq one) (simp add: bulbizarre_def)
  have differ: "poke_name bulbizarre \<noteq> poke_name herbizarre"
    by (simp add: bulbizarre_def herbizarre_def js_def)
  have idh: "poke_id herbizarre = Some 1"
    by (simp add: herbizarre_def)
  show ?thesis
    by (simp only: post fst_conv snd_conv get one idh) (simp add: differ)
qed

section \<open>Update by id\<close>

lemma put_pokemons_id_eq:
  "put_pokemons_id sch st raw b =
     (case run_validators sch b of
        Some msg \<Rightarrow> (\<lparr>status = 400, payload = Error msg\<rparr>, st)
      | None \<Rightarrow>
          ((case find (id_matches (parseInt raw)) (docs st) of
              None \<Rightarrow> not_found
            | Some d \<Rightarrow> \<lparr>status = 200, payload = Record (set_fields b d)\<rparr>),
           tick (st\<lparr>docs := update_first (id_matches (parseInt raw)) (set_fields b) (docs st)\<rparr>)))"
  by (simp add: put_pokemons_id_def findOneAndUpdate_def put_pokemons_id_respond_def Let_def
      split: option.splits)

text \<open>
  C6, amended. When no record has the id, PUT /pokemons/:id creates no record: the records
  of the store are unchanged. The answer is the error 404 when the body passes the
  validation of the update, and the error 400 with the message of the validation
  otherwise. The parsed id is one that the numbers of the program hold exactly.
\<close>

theorem update_absent:
  assumes "exact (parseInt raw)"
    and "\<forall>x\<in>set (docs st). \<not> id_matches (parseInt raw) x"
  shows "docs (snd (put_pokemons_id sch st raw b)) = docs st
     \<and> fst (put_pokemons_id sch st raw b)
        = (case run_validators sch b of
             None \<Rightarrow> \<lparr>status = 404, payload = Error ''Pokemon not found''\<rparr>
           | Some msg \<Rightarrow> \<lparr>status = 400, payload = Error msg\<rparr>)"
  using assms
  by (simp add: put_pokemons_id_eq find_no_match update_first_no_match docs_tick not_found_def
      split: option.splits)

theorem update_absent_witness:
  "docs (snd (put_pokemons_id lax_schema \<lparr>docs = [bulbizarre], calls = 0\<rparr> (js ''7'') empty_body))
     = [bulbizarre]
   \<and> fst (put_pokemons_id lax_schema \<lparr>docs = [bulbizarre], calls = 0\<rparr> (js ''7'') empty_body)
     = \<lparr>status = 404, payload = Error ''Pokemon not found''\<rparr>"
proof -
  have e: "exact (parseInt (js ''7''))"
    by (simp add: parseInt_7 exact_int_def)
  have "\<forall>x\<in>set (docs \<lparr>docs = [bulbizarre], calls = 0\<rparr>). \<not> id_matches (parseInt (js ''7'')) x"
    by (simp add: parseInt_7 bulbizarre_def)
  from update_absent [OF e this, of lax_schema empty_body]
  show ?thesis by (simp add: lax_schema_def accept_def)
qed

text \<open>
  C6 as stated fails: a body that the validation refuses is answered with 400, also when
  no record has the id.
\<close>

theorem update_absent_counterexample:
  "fst (put_pokemons_id strict_schema \<lparr>docs = [bulbizarre], calls = 0\<rparr> (js ''7'')
          (empty_body\<lparr>poke_type := Some []\<rparr>))
     = \<lparr>status = 400, payload = Error ''type: at least one entry is required''\<rparr>"
  by (simp add: put_pokemons_id_eq strict_schema_def type_not_empty_def empty_body_def)

text \<open>
  C8. Every rejection of the update call is answered with 400 and the message of the
  rejection, a failed validation among them, and no answer of PUT /pokemons/:id has the
  status 500.
\<close>

theorem update_failures:
  "put_pokemons_id_respond (Rejected msg) = \<lparr>status = 400, payload = Error msg\<rparr>
   \<and> status (put_pokemons_id_respond r) \<noteq> 500
   \<and> (run_validators sch b = Some msg \<longrightarrow>
        put_pokemons_id sch st raw b = (\<lparr>status = 400, payload = Error msg\<rparr>, st))
   \<and> status (fst (put_pokemons_id sch st raw b)) \<in> {200, 400, 404}"
proof (intro conjI impI)
  show "put_pokemons_id_respond (Rejected msg) = \<lparr>status = 400, payload = Error msg\<rparr>"
    by (simp add: put_pokemons_id_respond_def)
  show "status (put_pokemons_id_respond r) \<noteq> 500"
    by (simp add: put_pokemons_id_respond_def not_found_def split: outcome.splits option.splits)
  show "put_pokemons_id sch st raw b = (\<lparr>status = 400, payload = Error msg\<rparr>, st)"
    if "run_validators sch b = Some msg"
    using that by (simp add: put_pokemons_id_eq)
  show "status (fst (put_pokemons_id sch st raw b)) \<in> {200, 400, 404}"
    by (simp add: put_pokemons_id_eq not_found_def split: option.splits)
qed

theorem update_failures_witness:
  "put_pokemons_id strict_schema \<lparr>docs = [bulbizarre], calls = 0\<rparr> (js ''1'')
       (empty_body\<lparr>poke_type := Some []\<rparr>)
     = (\<lparr>status = 400, payload = Error ''type: at least one entry is required''\<rparr>,
        \<lparr>docs = [bulbizarre], calls = 0\<rparr>)"
proof -
  have h: "run_validators strict_schema (empty_body\<lparr>poke_type := Some []\<rparr>)
      = Some ''type: at least one entry is required''"
    by (simp add: strict_schema_def type_not_empty_def)
  show ?thesis
    by (rule update_failures [THEN conjunct2, THEN conjunct2, THEN conjunct1, THEN mp, OF h])
qed

section \<open>Routing precedence\<close>

lemma dispatch_page: "dispatch routes GET [js ''pokemons'', js ''20''] = Some (HPage, [])"
  by (simp add: routes_def js_def canon_def)

lemma dispatch_search: "dispatch routes GET [js ''pokemons'', js ''search''] = Some (HSearch, [])"
  by (simp add: routes_def js_def canon_def)

text \<open>
  C9, amended. GET /pokemons/20 is handled by the handler of the paginated list and GET
  /pokemons/search by the handler of the search, although the route with the parameter
  matches both paths: the literal routes come first. The handler of the get by id would
  parse \<open>search\<close> to NaN and answer 404, and would parse \<open>20\<close> to the number 20.
\<close>

theorem route_precedence:
  "(meth req = GET \<and> path req = [js ''pokemons'', js ''20''] \<longrightarrow>
      serve sch engine st req = Some (get_pokemons_20 st (query req)))
   \<and> (meth req = GET \<and> path req = [js ''pokemons'', js ''search''] \<longrightarrow>
      serve sch engine st req = Some (get_pokemons_search engine st (query req)))
   \<and> match_path [Lit (js ''pokemons''), Param ''id''] [js ''pokemons'', js ''20'']
        = Some [(''id'', js ''20'')]
   \<and> match_path [Lit (js ''pokemons''), Param ''id''] [js ''pokemons'', js ''search'']
        = Some [(''id'', js ''search'')]
   \<and> parseInt (js ''search'') = NaN
   \<and> fst (get_pokemons_id st (js ''search'')) = \<lparr>status = 404, payload = Error ''Pokemon not found''\<rparr>
   \<and> parseInt (js ''20'') = Num 20"
proof (intro conjI impI)
  assume "meth req = GET \<and> path req = [js ''pokemons'', js ''20'']"
  then show "serve sch engine st req = Some (get_pokemons_20 st (query req))"
    by (simp add: serve_def dispatch_page run_handler_def)
next
  assume "meth req = GET \<and> path req = [js ''pokemons'', js ''search'']"
  then show "serve sch engine st req = Some (get_pokemons_search engine st (query req))"
    by (simp add: serve_def dispatch_search run_handler_def)
next
  show "match_path [Lit (js ''pokemons''), Param ''id''] [js ''pokemons'', js ''20'']
        = Some [(''id'', js ''20'')]"
    by (simp add: js_def)
  show "match_path [Lit (js ''pokemons''), Param ''id''] [js ''pokemons'', js ''search'']
        = Some [(''id'', js ''search'')]"
    by (simp add: js_def)
  show "parseInt (js ''search'') = NaN"
    by (rule parseInt_search)
  have "find (id_matches (parseInt (js ''search''))) (docs st) = None"
    by (rule find_no_match) (simp add: parseInt_search)
  then show "fst (get_pokemons_id st (js ''search''))
      = \<lparr>status = 404, payload = Error ''Pokemon not found''\<rparr>"
    by (simp add: get_pokemons_id_eq not_found_def)
  show "parseInt (js ''20'') = Num 20"
    by (rule parseInt_20)
qed

theorem route_precedence_witness:
  "serve lax_schema no_engine \<lparr>docs = [rattatac], calls = 0\<rparr>
      \<lparr>meth = GET, path = [js ''pokemons'', js ''20''], query = Map.empty, body = empty_body\<rparr>
     = Some (\<lparr>status = 200, payload = Page 1 20 1 [rattatac]\<rparr>, \<lparr>docs = [rattatac], calls = 1\<rparr>)
   \<and> serve lax_schema no_engine \<lparr>docs = [rattatac], calls = 0\<rparr>
      \<lparr>meth = GET, path = [js ''pokemons'', js ''search''], query = Map.empty, body = empty_body\<rparr>
     = Some (\<lparr>status = 400, payload = Error ''Query param 'name' is required''\<rparr>,
             \<lparr>docs = [rattatac], calls = 0\<rparr>)"
proof -
  let ?st = "\<lparr>docs = [rattatac], calls = 0\<rparr>"
  let ?r1 = "\<lparr>meth = GET, path = [js ''pokemons'', js ''20''], query = Map.empty, body = empty_body\<rparr>"
  let ?r2 = "\<lparr>meth = GET, path = [js ''pokemons'', js ''search''], query = Map.empty, body = empty_body\<rparr>"
  have h1: "meth ?r1 = GET \<and> path ?r1 = [js ''pokemons'', js ''20'']" by simp
  have h2: "meth ?r2 = GET \<and> path ?r2 = [js ''pokemons'', js ''search'']" by simp
  have p: "get_pokemons_20 ?st Map.empty
      = (\<lparr>status = 200, payload = Page 1 20 1 [rattatac]\<rparr>, \<lparr>docs = [rattatac], calls = 1\<rparr>)"
    by (simp add: get_pokemons_20_def to_string_opt_def parseInt_def js_def is_js_space_def
        is_digit_def page_or_1_def find_skip_limit_def get_pokemons_20_respond_def tick_def)
  have s: "get_pokemons_search no_engine ?st Map.empty
      = (\<lparr>status = 400, payload = Error ''Query param 'name' is required''\<rparr>, ?st)"
    by (simp add: get_pokemons_search_def search_with_def js_trim_def missing_name_def)
  from route_precedence [of ?r1 lax_schema no_engine ?st, THEN conjunct1, THEN mp, OF h1]
  have a: "serve lax_schema no_engine ?st ?r1
      = Some (\<lparr>status = 200, payload = Page 1 20 1 [rattatac]\<rparr>, \<lparr>docs = [rattatac], calls = 1\<rparr>)"
    by (simp add: p)
  from route_precedence [of ?r2 lax_schema no_engine ?st, THEN conjunct2, THEN conjunct1, THEN mp, OF h2]
  have b: "serve lax_schema no_engine ?st ?r2
      = Some (\<lparr>status = 400, payload = Error ''Query param 'name' is required''\<rparr>, ?st)"
    by (simp add: s)
  from a b show ?thesis by (rule conjI)
qed

text \<open>
  C9 as stated fails in its last part: \<open>20\<close> does not parse to NaN, and the handler of the
  get by id answers 200 for it when a record has the id 20.
\<close>

theorem route_precedence_counterexample:
  "parseInt (js ''20'') = Num 20
   \<and> fst (get_pokemons_id \<lparr>docs = [rattatac], calls = 0\<rparr> (js ''20''))
     = \<lparr>status = 200, payload = Record rattatac\<rparr>"
proof -
  have "fst (get_pokemons_id \<lparr>docs = [rattatac], calls = 0\<rparr> (js ''20''))
     = \<lparr>status = 200, payload = Record rattatac\<rparr>"
    by (simp add: get_pokemons_id_eq parseInt_20) (simp add: rattatac_def)
  with parseInt_20 show ?thesis by (rule conjI)
qed

end
